theory Spec2Isabelle
  imports Main "HOL-Library.Word" "HOL-Library.Product_Lexorder"
begin

section \<open>PLDM host PDR handler and license file handler\<close>

text \<open>
  A shallow embedding of \<^verbatim>\<open>host-bmc/host_pdr_handler.hpp\<close> (the key type
  \<^verbatim>\<open>SensorEntry\<close>, the sensor lookup index and \<^verbatim>\<open>lookupSensorInfo\<close>) and of
  the license file handler (\<^verbatim>\<open>LicenseHandler\<close>). Member functions take the object
  they are called on as their first argument and return what they return together with
  everything they could have written to.
\<close>

subsection \<open>Completion codes and exceptions\<close>

text \<open>
  Modelled from the spec: the enumeration of PLDM completion codes is declared in
  \<^verbatim>\<open>libpldm/base.h\<close>, which is not among the sources. The sources name
  \<^verbatim>\<open>PLDM_ERROR_UNSUPPORTED_PLDM_CMD\<close> (the spec's "unsupported command" code); the
  spec adds success and an explicit "sensor not found" code. The numeric values play no
  role, so the codes are the constructors of a datatype.
\<close>

datatype pldm_completion_codes =
    PLDM_SUCCESS
  | PLDM_ERROR_UNSUPPORTED_PLDM_CMD
  | SENSOR_NOT_FOUND

text \<open>The one C++ exception the modelled code can raise: \<^verbatim>\<open>std::map::at\<close> on a missing key.\<close>

datatype cpp_exception = std_out_of_range

subsection \<open>\<^verbatim>\<open>SensorEntry\<close>\<close>

text \<open>
  \<^verbatim>\<open>struct SensorEntry { pdr::TerminusID terminusID; pdr::SensorID sensorID; ... }\<close>.
  The two identifier types are declared outside the sources; they are integer types, so
  they are type parameters of sort \<open>linorder\<close> here, and every result holds for any
  width and signedness.
\<close>

record ('t, 's) SensorEntry =
  terminusID :: 't
  sensorID :: 's

text \<open>\<^verbatim>\<open>bool operator==(const SensorEntry& e) const\<close>\<close>

definition SensorEntry_eq :: "('t, 's) SensorEntry \<Rightarrow> ('t, 's) SensorEntry \<Rightarrow> bool" where
  "SensorEntry_eq a e = ((terminusID a = terminusID e) \<and> (sensorID a = sensorID e))"

text \<open>\<^verbatim>\<open>bool operator<(const SensorEntry& e) const\<close>\<close>

definition SensorEntry_less ::
  "('t::linorder, 's::linorder) SensorEntry \<Rightarrow> ('t, 's) SensorEntry \<Rightarrow> bool" where
  "SensorEntry_less a e =
     ((terminusID a < terminusID e) \<or>
      ((terminusID a = terminusID e) \<and> (sensorID a < sensorID e)))"

subsection \<open>\<^verbatim>\<open>std::map\<close>\<close>

text \<open>
  A \<^verbatim>\<open>std::map<K, V>\<close> is the list of its entries in iteration order. The map never
  compares keys with \<^verbatim>\<open>==\<close>: it is given a comparison \<open>lt\<close> (for
  \<^verbatim>\<open>std::less<K>\<close>, the key type's \<^verbatim>\<open>operator<\<close>) and takes two keys for the same
  key when neither is less than the other.
\<close>

type_synonym ('k, 'v) std_map = "('k \<times> 'v) list"

definition key_equiv :: "('k \<Rightarrow> 'k \<Rightarrow> bool) \<Rightarrow> 'k \<Rightarrow> 'k \<Rightarrow> bool" where
  "key_equiv lt a b = (\<not> lt a b \<and> \<not> lt b a)"

text \<open>\<^verbatim>\<open>find\<close>: the value stored under a key equivalent to \<open>k\<close>, if there is one.\<close>

fun std_map_find :: "('k \<Rightarrow> 'k \<Rightarrow> bool) \<Rightarrow> ('k, 'v) std_map \<Rightarrow> 'k \<Rightarrow> 'v option" where
  "std_map_find lt [] k = None"
| "std_map_find lt ((k', v) # m) k =
     (if key_equiv lt k' k then Some v else std_map_find lt m k)"

text \<open>\<^verbatim>\<open>at\<close>: a reference to the value of the key, or \<^verbatim>\<open>std::out_of_range\<close> thrown.\<close>

definition std_map_at ::
  "('k \<Rightarrow> 'k \<Rightarrow> bool) \<Rightarrow> ('k, 'v) std_map \<Rightarrow> 'k \<Rightarrow> cpp_exception + 'v" where
  "std_map_at lt m k =
     (case std_map_find lt m k of None \<Rightarrow> Inl std_out_of_range | Some v \<Rightarrow> Inr v)"

text \<open>
  \<^verbatim>\<open>insert_or_assign\<close> (and \<^verbatim>\<open>m[k] = v\<close>): the entry goes to its place in the order;
  an entry with an equivalent key is overwritten.
\<close>

fun std_map_insert_or_assign ::
  "('k \<Rightarrow> 'k \<Rightarrow> bool) \<Rightarrow> ('k, 'v) std_map \<Rightarrow> 'k \<Rightarrow> 'v \<Rightarrow> ('k, 'v) std_map" where
  "std_map_insert_or_assign lt [] k v = [(k, v)]"
| "std_map_insert_or_assign lt ((k', v') # m) k v =
     (if lt k k' then (k, v) # (k', v') # m
      else if lt k' k then (k', v') # std_map_insert_or_assign lt m k v
      else (k, v) # m)"

subsection \<open>\<^verbatim>\<open>HostPDRHandler\<close>: the sensor lookup index\<close>

text \<open>
  \<^verbatim>\<open>using ChangeEntry = uint32_t; using PDRRecordHandles = std::deque<ChangeEntry>;\<close>
\<close>

type_synonym ChangeEntry = "32 word"

type_synonym PDRRecordHandles = "ChangeEntry list"

text \<open>
  \<^verbatim>\<open>using HostStateSensorMap = std::map<SensorEntry, pdr::SensorInfo>\<close>, ordered by
  \<^verbatim>\<open>SensorEntry::operator<\<close>. \<^verbatim>\<open>pdr::SensorInfo\<close> is declared outside the sources and
  is never inspected by the code modelled here: it is the type parameter \<open>'info\<close>.
\<close>

type_synonym ('t, 's, 'info) HostStateSensorMap = "(('t, 's) SensorEntry, 'info) std_map"

text \<open>
  The data members of \<^verbatim>\<open>HostPDRHandler\<close> whose types the header itself fixes and
  that hold plain data. The sockets, the event loop, the repository and tree pointers and
  the D-Bus objects are handles to collaborators and carry no data of the handler's own.
\<close>

record ('t, 's, 'info) HostPDRHandler =
  mctp_eid :: "8 word"
  pdrRecordHandles :: PDRRecordHandles
  sensorMap :: "('t, 's, 'info) HostStateSensorMap"
  verbose :: bool
  responseReceived :: bool
  mergedHostParents :: bool
  timeOut :: bool
  insId :: "8 word"
  objPathEntityAssociation :: bool

text \<open>
  \<^verbatim>\<open>const pdr::SensorInfo& lookupSensorInfo(const SensorEntry& entry) const
  { return sensorMap.at(entry); }\<close>
\<close>

definition lookupSensorInfo ::
  "('t::linorder, 's::linorder, 'info) HostPDRHandler \<Rightarrow> ('t, 's) SensorEntry
     \<Rightarrow> cpp_exception + 'info" where
  "lookupSensorInfo h entry = std_map_at SensorEntry_less (sensorMap h) entry"

text \<open>
  A \<^verbatim>\<open>SensorEntry\<close> is present in the index when some stored key is \<^verbatim>\<open>==\<close> to it.
\<close>

definition inSensorMap ::
  "('t, 's, 'info) HostStateSensorMap \<Rightarrow> ('t, 's) SensorEntry \<Rightarrow> bool" where
  "inSensorMap m entry = list_ex (\<lambda>kv. SensorEntry_eq (fst kv) entry) m"

subsection \<open>\<^verbatim>\<open>HostPDRHandler\<close>: filling and reading the sensor lookup index\<close>

text \<open>
  \<^verbatim>\<open>using PDRList = std::vector<std::vector<uint8_t>>\<close> and
  \<^verbatim>\<open>using TLPDRMap = std::map<pdr::TerminusHandle, pdr::TerminusID>\<close>; the terminus
  handle is an integer type declared outside the sources (\<open>'th\<close>), compared by
  \<^verbatim>\<open>std::less\<close>.
\<close>

type_synonym PDRList = "8 word list list"

type_synonym ('th, 't) TLPDRMap = "('th, 't) std_map"

text \<open>
  What the PLDM framing library decodes from the bytes of one state sensor PDR, as far as
  the index needs it: the handle of the owning terminus, the sensor id, and the
  \<^verbatim>\<open>SensorInfo\<close> stored for the sensor. The decoder belongs to the framing library;
  the functions below take it as the parameter \<open>decode\<close>, \<open>None\<close> being a record
  that does not decode.
\<close>

record ('th, 's, 'info) state_sensor_pdr =
  pdr_terminusHandle :: 'th
  pdr_sensorID :: 's
  pdr_sensorInfo :: 'info

text \<open>
  Modelled from the spec: the body of \<^verbatim>\<open>HostPDRHandler::parseStateSensorPDRs\<close> is
  missing, the header only declares it. The spec (4.3, 3): for each decoded state-sensor
  PDR, resolve terminusHandle to terminusID via the supplied terminus-locator map;
  construct a SensorEntry (terminusID, sensorID); store its SensorInfo in the index (one
  value per key, covering all state-set offsets of the sensor; composing it is part of
  decoding); a record that does not decode or whose terminus handle does not resolve is
  skipped, and nothing else is; a key parsed twice keeps the last SensorInfo written.
\<close>

definition stateSensorEntry ::
  "(8 word list \<Rightarrow> ('th::linorder, 's, 'info) state_sensor_pdr option) \<Rightarrow> ('th, 't) TLPDRMap
     \<Rightarrow> 8 word list \<Rightarrow> (('t, 's) SensorEntry \<times> 'info) option" where
  "stateSensorEntry decode tlpdrInfo pdr =
     (case decode pdr of
        None \<Rightarrow> None
      | Some p \<Rightarrow>
          (case std_map_find (<) tlpdrInfo (pdr_terminusHandle p) of
             None \<Rightarrow> None
           | Some tid \<Rightarrow>
               Some (\<lparr>terminusID = tid, sensorID = pdr_sensorID p\<rparr>, pdr_sensorInfo p)))"

definition parseStateSensorPDR ::
  "(8 word list \<Rightarrow> ('th::linorder, 's::linorder, 'info) state_sensor_pdr option)
     \<Rightarrow> ('th, 't::linorder) TLPDRMap \<Rightarrow> ('t, 's, 'info) HostStateSensorMap \<Rightarrow> 8 word list
     \<Rightarrow> ('t, 's, 'info) HostStateSensorMap" where
  "parseStateSensorPDR decode tlpdrInfo m pdr =
     (case stateSensorEntry decode tlpdrInfo pdr of
        None \<Rightarrow> m
      | Some (entry, info) \<Rightarrow> std_map_insert_or_assign SensorEntry_less m entry info)"

definition parseStateSensorPDRs ::
  "(8 word list \<Rightarrow> ('th::linorder, 's::linorder, 'info) state_sensor_pdr option)
     \<Rightarrow> ('t::linorder, 's, 'info) HostPDRHandler \<Rightarrow> PDRList \<Rightarrow> ('th, 't) TLPDRMap
     \<Rightarrow> ('t, 's, 'info) HostPDRHandler" where
  "parseStateSensorPDRs decode h stateSensorPDRs tlpdrInfo =
     h\<lparr>sensorMap := foldl (parseStateSensorPDR decode tlpdrInfo) (sensorMap h) stateSensorPDRs\<rparr>"

subsection \<open>\<^verbatim>\<open>LicenseHandler\<close>\<close>

text \<open>
  \<^verbatim>\<open>class LicenseHandler : public FileHandler\<close>, constructed as
  \<^verbatim>\<open>FileHandler(fileHandle), licType(fileType)\<close>. The base class is declared in
  \<^verbatim>\<open>file_io_by_type.hpp\<close>, outside the sources; the constructor shows the file handle
  it is given.
\<close>

record FileHandler =
  fileHandle :: "32 word"

record LicenseHandler = FileHandler +
  licType :: "16 word"

text \<open>
  The five member functions defined in the class body. Each returns the completion code
  with the object after the call; a function with a \<^verbatim>\<open>uint32_t& length\<close> parameter
  also returns the referenced length after the call. The OEM platform handler is a
  pointer of a type declared elsewhere (\<open>'oem\<close>); the functions leave the parameter
  unnamed. \<^verbatim>\<open>write\<close> is \<open>write_buffer\<close> here, \<open>write\<close> being a keyword.
\<close>

definition writeFromMemory ::
  "LicenseHandler \<Rightarrow> 32 word \<Rightarrow> 32 word \<Rightarrow> 64 word \<Rightarrow> 'oem
     \<Rightarrow> pldm_completion_codes \<times> LicenseHandler" where
  "writeFromMemory this offset len address oemPlatformHandler =
     (PLDM_ERROR_UNSUPPORTED_PLDM_CMD, this)"

definition readIntoMemory ::
  "LicenseHandler \<Rightarrow> 32 word \<Rightarrow> 32 word \<Rightarrow> 64 word \<Rightarrow> 'oem
     \<Rightarrow> pldm_completion_codes \<times> 32 word \<times> LicenseHandler" where
  "readIntoMemory this offset len address oemPlatformHandler =
     (PLDM_ERROR_UNSUPPORTED_PLDM_CMD, len, this)"

definition write_buffer ::
  "LicenseHandler \<Rightarrow> 8 word list \<Rightarrow> 32 word \<Rightarrow> 32 word \<Rightarrow> 'oem
     \<Rightarrow> pldm_completion_codes \<times> 32 word \<times> LicenseHandler" where
  "write_buffer this buffer offset len oemPlatformHandler =
     (PLDM_ERROR_UNSUPPORTED_PLDM_CMD, len, this)"

definition fileAck :: "LicenseHandler \<Rightarrow> 8 word \<Rightarrow> pldm_completion_codes \<times> LicenseHandler" where
  "fileAck this fileStatus = (PLDM_ERROR_UNSUPPORTED_PLDM_CMD, this)"

definition newFileAvailable ::
  "LicenseHandler \<Rightarrow> 64 word \<Rightarrow> pldm_completion_codes \<times> LicenseHandler" where
  "newFileAvailable this len = (PLDM_ERROR_UNSUPPORTED_PLDM_CMD, this)"

section \<open>Properties\<close>

subsection \<open>The order on \<^verbatim>\<open>SensorEntry\<close>\<close>

lemma SensorEntry_less_lex:
  "SensorEntry_less a b \<longleftrightarrow> (terminusID a, sensorID a) < (terminusID b, sensorID b)"
  by (auto simp: SensorEntry_less_def less_prod_def)

lemma SensorEntry_less_trans:
  "SensorEntry_less a b \<Longrightarrow> SensorEntry_less b c \<Longrightarrow> SensorEntry_less a c"
  unfolding SensorEntry_less_lex by (rule less_trans)

lemma SensorEntry_less_irrefl: "\<not> SensorEntry_less a a"
  by (simp add: SensorEntry_less_def)

lemma SensorEntry_trichotomy:
  "SensorEntry_less a b \<or> SensorEntry_eq a b \<or> SensorEntry_less b a"
  by (auto simp: SensorEntry_less_def SensorEntry_eq_def)

lemma SensorEntry_eq_no_less:
  "SensorEntry_eq a b \<Longrightarrow> \<not> SensorEntry_less a b \<and> \<not> SensorEntry_less b a"
  by (auto simp: SensorEntry_less_def SensorEntry_eq_def)

text \<open>
  The equivalence \<^verbatim>\<open>std::map\<close> derives from \<^verbatim>\<open>operator<\<close> is \<^verbatim>\<open>operator==\<close>.
\<close>

lemma key_equiv_SensorEntry: "key_equiv SensorEntry_less a b \<longleftrightarrow> SensorEntry_eq a b"
  by (auto simp: key_equiv_def SensorEntry_less_def SensorEntry_eq_def)

text \<open>
  Claim C7. \<^verbatim>\<open>SensorEntry::operator<\<close> is a strict total order and is the
  lexicographic order on the pair (terminusID, sensorID): it is transitive, two entries
  that are \<^verbatim>\<open>==\<close> are not related by \<^verbatim>\<open><\<close> in either direction, any two entries
  are related by \<^verbatim>\<open><\<close> one way or the other or are \<^verbatim>\<open>==\<close>, and \<^verbatim>\<open>==\<close> holds
  exactly when both terminusID and sensorID are equal.
\<close>

theorem SensorEntry_strict_total_order:
  fixes a b c :: "('t::linorder, 's::linorder) SensorEntry"
  shows "(SensorEntry_less a b \<and> SensorEntry_less b c \<longrightarrow> SensorEntry_less a c)
       \<and> (SensorEntry_eq a b \<longrightarrow> \<not> SensorEntry_less a b \<and> \<not> SensorEntry_less b a)
       \<and> (SensorEntry_less a b \<or> SensorEntry_eq a b \<or> SensorEntry_less b a)
       \<and> (SensorEntry_less a b \<longleftrightarrow> (terminusID a, sensorID a) < (terminusID b, sensorID b))
       \<and> (SensorEntry_eq a b \<longleftrightarrow> terminusID a = terminusID b \<and> sensorID a = sensorID b)"
proof -
  have "SensorEntry_less a b \<and> SensorEntry_less b c \<longrightarrow> SensorEntry_less a c"
    using SensorEntry_less_trans by blast
  moreover have "SensorEntry_eq a b \<longrightarrow> \<not> SensorEntry_less a b \<and> \<not> SensorEntry_less b a"
    using SensorEntry_eq_no_less by blast
  moreover have "SensorEntry_less a b \<or> SensorEntry_eq a b \<or> SensorEntry_less b a"
    by (rule SensorEntry_trichotomy)
  moreover have
    "SensorEntry_less a b \<longleftrightarrow> (terminusID a, sensorID a) < (terminusID b, sensorID b)"
    by (rule SensorEntry_less_lex)
  moreover have
    "SensorEntry_eq a b \<longleftrightarrow> terminusID a = terminusID b \<and> sensorID a = sensorID b"
    by (simp add: SensorEntry_eq_def)
  ultimately show ?thesis by blast
qed

theorem SensorEntry_strict_total_order_witness:
  "SensorEntry_less \<lparr>terminusID = 1 :: 8 word, sensorID = 7 :: 16 word\<rparr>
                    \<lparr>terminusID = 1, sensorID = 9\<rparr>
   \<and> SensorEntry_less \<lparr>terminusID = 1 :: 8 word, sensorID = 9 :: 16 word\<rparr>
                      \<lparr>terminusID = 2, sensorID = 0\<rparr>
   \<and> SensorEntry_less \<lparr>terminusID = 1 :: 8 word, sensorID = 7 :: 16 word\<rparr>
                      \<lparr>terminusID = 2, sensorID = 0\<rparr>
   \<and> SensorEntry_eq \<lparr>terminusID = 1 :: 8 word, sensorID = 7 :: 16 word\<rparr>
                    \<lparr>terminusID = 1, sensorID = 7\<rparr>
   \<and> \<not> SensorEntry_less \<lparr>terminusID = 1 :: 8 word, sensorID = 7 :: 16 word\<rparr>
                        \<lparr>terminusID = 1, sensorID = 7\<rparr>"
proof -
  let ?a = "\<lparr>terminusID = 1 :: 8 word, sensorID = 7 :: 16 word\<rparr>"
  let ?b = "\<lparr>terminusID = 1 :: 8 word, sensorID = 9 :: 16 word\<rparr>"
  let ?c = "\<lparr>terminusID = 2 :: 8 word, sensorID = 0 :: 16 word\<rparr>"
  have ab: "SensorEntry_less ?a ?b" by (simp add: SensorEntry_less_def)
  have bc: "SensorEntry_less ?b ?c" by (simp add: SensorEntry_less_def)
  have aa: "SensorEntry_eq ?a ?a" by (simp add: SensorEntry_eq_def)
  have ac: "SensorEntry_less ?a ?c"
    using SensorEntry_strict_total_order [of ?a ?b ?c] ab bc by blast
  have naa: "\<not> SensorEntry_less ?a ?a"
    using SensorEntry_strict_total_order [of ?a ?a ?a] aa by blast
  from ab bc ac aa naa show ?thesis by blast
qed

subsection \<open>The unsupported operations of \<^verbatim>\<open>LicenseHandler\<close>\<close>

text \<open>
  Claim C9. For all argument values, \<^verbatim>\<open>LicenseHandler\<close>'s \<^verbatim>\<open>writeFromMemory\<close>,
  \<^verbatim>\<open>readIntoMemory\<close>, \<^verbatim>\<open>write\<close>, \<^verbatim>\<open>fileAck\<close> and \<^verbatim>\<open>newFileAvailable\<close>
  return \<^verbatim>\<open>PLDM_ERROR_UNSUPPORTED_PLDM_CMD\<close> and change nothing: the handler object
  is the same after the call, and so is the length passed by reference.
\<close>

theorem LicenseHandler_unsupported_no_effect:
  "writeFromMemory this offset len address oem1 = (PLDM_ERROR_UNSUPPORTED_PLDM_CMD, this)
   \<and> readIntoMemory this offset len address oem2 = (PLDM_ERROR_UNSUPPORTED_PLDM_CMD, len, this)
   \<and> write_buffer this buffer offset len oem3 = (PLDM_ERROR_UNSUPPORTED_PLDM_CMD, len, this)
   \<and> fileAck this fileStatus = (PLDM_ERROR_UNSUPPORTED_PLDM_CMD, this)
   \<and> newFileAvailable this fileLength = (PLDM_ERROR_UNSUPPORTED_PLDM_CMD, this)"
  by (simp add: writeFromMemory_def readIntoMemory_def write_buffer_def fileAck_def
      newFileAvailable_def)

subsection \<open>Lookups in the sensor index\<close>

lemma std_map_find_SensorEntry_None:
  "std_map_find SensorEntry_less m entry = None \<longleftrightarrow> \<not> inSensorMap m entry"
  by (induction m) (auto simp: inSensorMap_def key_equiv_SensorEntry split: if_splits)

text \<open>
  Claim C10. For every \<^verbatim>\<open>SensorEntry\<close> absent from the sensor lookup index (no stored
  key is \<^verbatim>\<open>==\<close> to it), \<^verbatim>\<open>lookupSensorInfo\<close> throws \<^verbatim>\<open>std::out_of_range\<close>, as
  \<^verbatim>\<open>std::map::at\<close> does; it returns no value, so no error indication either.
\<close>

theorem lookupSensorInfo_absent_throws:
  assumes "\<not> inSensorMap (sensorMap h) entry"
  shows "lookupSensorInfo h entry = Inl std_out_of_range
         \<and> (\<forall>info. lookupSensorInfo h entry \<noteq> Inr info)"
proof -
  from assms have "std_map_find SensorEntry_less (sensorMap h) entry = None"
    by (simp add: std_map_find_SensorEntry_None)
  then have "lookupSensorInfo h entry = Inl std_out_of_range"
    by (simp add: lookupSensorInfo_def std_map_at_def)
  then show ?thesis by simp
qed

theorem lookupSensorInfo_absent_throws_witness:
  "\<not> inSensorMap
       (sensorMap \<lparr>mctp_eid = 9, pdrRecordHandles = [],
          sensorMap = [(\<lparr>terminusID = 1 :: 8 word, sensorID = 7 :: 16 word\<rparr>, ''cpu0'')],
          verbose = False, responseReceived = False, mergedHostParents = False,
          timeOut = False, insId = 0, objPathEntityAssociation = False\<rparr>)
       \<lparr>terminusID = 1, sensorID = 8\<rparr>
   \<and> lookupSensorInfo
       \<lparr>mctp_eid = 9, pdrRecordHandles = [],
          sensorMap = [(\<lparr>terminusID = 1 :: 8 word, sensorID = 7 :: 16 word\<rparr>, ''cpu0'')],
          verbose = False, responseReceived = False, mergedHostParents = False,
          timeOut = False, insId = 0, objPathEntityAssociation = False\<rparr>
       \<lparr>terminusID = 1, sensorID = 8\<rparr> = Inl std_out_of_range"
proof -
  let ?h = "\<lparr>mctp_eid = 9, pdrRecordHandles = [],
          sensorMap = [(\<lparr>terminusID = 1 :: 8 word, sensorID = 7 :: 16 word\<rparr>, ''cpu0'')],
          verbose = False, responseReceived = False, mergedHostParents = False,
          timeOut = False, insId = 0, objPathEntityAssociation = False\<rparr>"
  let ?e = "\<lparr>terminusID = 1 :: 8 word, sensorID = 8 :: 16 word\<rparr>"
  have absent: "\<not> inSensorMap (sensorMap ?h) ?e"
    by (simp add: inSensorMap_def SensorEntry_eq_def)
  from lookupSensorInfo_absent_throws [OF absent] absent show ?thesis by blast
qed

subsection \<open>Insertion into a \<^verbatim>\<open>std::map\<close>, then lookup\<close>

lemma std_map_find_insert_same:
  assumes irrefl: "\<And>x. \<not> lt x x"
  shows "std_map_find lt (std_map_insert_or_assign lt m k v) k = Some v"
proof (induction m)
  case Nil
  show ?case by (simp add: key_equiv_def irrefl)
next
  case (Cons kv m)
  obtain k' v' where kv: "kv = (k', v')" by (cases kv)
  show ?case
  proof (cases "lt k k'")
    case True
    then show ?thesis by (simp add: kv key_equiv_def irrefl)
  next
    case False
    show ?thesis
    proof (cases "lt k' k")
      case True
      with False Cons.IH show ?thesis by (simp add: kv key_equiv_def)
    next
      case nlt: False
      with False show ?thesis by (simp add: kv key_equiv_def irrefl)
    qed
  qed
qed

lemma std_map_find_insert_other:
  assumes trans: "\<And>a b c. key_equiv lt a b \<Longrightarrow> key_equiv lt b c \<Longrightarrow> key_equiv lt a c"
    and other: "\<not> key_equiv lt k k2"
  shows "std_map_find lt (std_map_insert_or_assign lt m k v) k2 = std_map_find lt m k2"
proof (induction m)
  case Nil
  from other show ?case by simp
next
  case (Cons kv m)
  obtain k' v' where kv: "kv = (k', v')" by (cases kv)
  show ?case
  proof (cases "lt k k'")
    case True
    with other show ?thesis by (simp add: kv)
  next
    case False
    show ?thesis
    proof (cases "lt k' k")
      case True
      with False Cons.IH show ?thesis by (simp add: kv)
    next
      case nlt: False
      with False have same: "key_equiv lt k k'" by (simp add: key_equiv_def)
      have "\<not> key_equiv lt k' k2"
      proof
        assume "key_equiv lt k' k2"
        with same have "key_equiv lt k k2" by (rule trans)
        with other show False by simp
      qed
      with False nlt other show ?thesis by (simp add: kv)
    qed
  qed
qed

lemma key_equiv_SensorEntry_trans:
  "key_equiv SensorEntry_less a b \<Longrightarrow> key_equiv SensorEntry_less b c
     \<Longrightarrow> key_equiv SensorEntry_less a c"
  by (simp add: key_equiv_SensorEntry SensorEntry_eq_def)

lemma parseStateSensorPDR_same:
  "stateSensorEntry decode tlm pdr = Some (e, info)
     \<Longrightarrow> std_map_find SensorEntry_less (parseStateSensorPDR decode tlm m pdr) e = Some info"
  by (simp add: parseStateSensorPDR_def std_map_find_insert_same SensorEntry_less_irrefl)

lemma parseStateSensorPDR_other:
  assumes "\<And>e' v. stateSensorEntry decode tlm pdr = Some (e', v) \<Longrightarrow> \<not> SensorEntry_eq e' e"
  shows "std_map_find SensorEntry_less (parseStateSensorPDR decode tlm m pdr) e
           = std_map_find SensorEntry_less m e"
proof (cases "stateSensorEntry decode tlm pdr")
  case None
  then show ?thesis by (simp add: parseStateSensorPDR_def)
next
  case (Some ev)
  obtain e' v where ev: "ev = (e', v)" by (cases ev)
  with Some assms have ne: "\<not> key_equiv SensorEntry_less e' e"
    by (simp add: key_equiv_SensorEntry)
  have "std_map_find SensorEntry_less (std_map_insert_or_assign SensorEntry_less m e' v) e
          = std_map_find SensorEntry_less m e"
  proof (rule std_map_find_insert_other)
    show "key_equiv SensorEntry_less a c"
      if "key_equiv SensorEntry_less a b" and "key_equiv SensorEntry_less b c"
      for a b c :: "('a, 'b) SensorEntry"
      using that by (rule key_equiv_SensorEntry_trans)
    show "\<not> key_equiv SensorEntry_less e' e" by (rule ne)
  qed
  with Some ev show ?thesis by (simp add: parseStateSensorPDR_def)
qed

lemma foldl_parseStateSensorPDR_other:
  assumes "\<forall>r\<in>set pdrs. \<forall>e' v. stateSensorEntry decode tlm r = Some (e', v) \<longrightarrow> \<not> SensorEntry_eq e' e"
  shows "std_map_find SensorEntry_less (foldl (parseStateSensorPDR decode tlm) m pdrs) e
           = std_map_find SensorEntry_less m e"
  using assms
proof (induction pdrs arbitrary: m)
  case Nil
  show ?case by simp
next
  case (Cons r pdrs)
  have "std_map_find SensorEntry_less
          (foldl (parseStateSensorPDR decode tlm) (parseStateSensorPDR decode tlm m r) pdrs) e
        = std_map_find SensorEntry_less (parseStateSensorPDR decode tlm m r) e"
    using Cons.IH Cons.prems by simp
  also have "\<dots> = std_map_find SensorEntry_less m e"
    using Cons.prems by (intro parseStateSensorPDR_other) simp
  finally show ?case by simp
qed

lemma SensorEntry_eq_iff:
  fixes a b :: "('t, 's) SensorEntry"
  shows "SensorEntry_eq a b \<longleftrightarrow> a = b"
  by (cases a, cases b) (simp add: SensorEntry_eq_def)

text \<open>The batch seen from the last PDR that writes a key: that write is what a lookup reads.\<close>

lemma parseStateSensorPDRs_last_write:
  assumes "stateSensorEntry decode tlpdrInfo pdr = Some (entry, info)"
    and "\<forall>r\<in>set post. \<forall>v. stateSensorEntry decode tlpdrInfo r \<noteq> Some (entry, v)"
  shows "lookupSensorInfo (parseStateSensorPDRs decode h (pre @ pdr # post) tlpdrInfo) entry
           = Inr info"
proof -
  let ?step = "parseStateSensorPDR decode tlpdrInfo"
  let ?m1 = "foldl ?step (sensorMap h) pre"
  from assms(2) have later: "\<forall>r\<in>set post. \<forall>e' v.
      stateSensorEntry decode tlpdrInfo r = Some (e', v) \<longrightarrow> \<not> SensorEntry_eq e' entry"
    by (auto simp: SensorEntry_eq_iff)
  have "std_map_find SensorEntry_less (foldl ?step (sensorMap h) (pre @ pdr # post)) entry
        = std_map_find SensorEntry_less (foldl ?step (?step ?m1 pdr) post) entry"
    by simp
  also have "\<dots> = std_map_find SensorEntry_less (?step ?m1 pdr) entry"
    using later by (rule foldl_parseStateSensorPDR_other)
  also have "\<dots> = Some info"
    using assms(1) by (rule parseStateSensorPDR_same)
  finally show ?thesis
    by (simp add: lookupSensorInfo_def parseStateSensorPDRs_def std_map_at_def)
qed

text \<open>
  Claim C6. Let \<^verbatim>\<open>parseStateSensorPDRs\<close> insert a \<^verbatim>\<open>SensorEntry\<close> into the sensor
  lookup index: some PDR of the batch decodes, its terminus handle resolves in the
  terminus-locator map, and \<open>entry\<close> is the key it gives. Then a later
  \<^verbatim>\<open>lookupSensorInfo\<close> of \<open>entry\<close> returns (it does not throw), and what it returns is
  a \<^verbatim>\<open>SensorInfo\<close> that the batch inserted under that very key. A key may be parsed
  several times and the last write stands: when no PDR after \<open>pdr\<close> writes the key
  again, the \<^verbatim>\<open>SensorInfo\<close> returned is the one inserted from \<open>pdr\<close>. Nothing is asked
  of the index before the call.
\<close>

theorem lookupSensorInfo_parseStateSensorPDRs_roundtrip:
  assumes "pdr \<in> set stateSensorPDRs"
    and "stateSensorEntry decode tlpdrInfo pdr = Some (entry, info)"
  shows "\<exists>info'.
           lookupSensorInfo (parseStateSensorPDRs decode h stateSensorPDRs tlpdrInfo) entry
             = Inr info'
         \<and> (\<exists>r\<in>set stateSensorPDRs. stateSensorEntry decode tlpdrInfo r = Some (entry, info'))
         \<and> ((\<exists>pre post. stateSensorPDRs = pre @ pdr # post
                \<and> (\<forall>r\<in>set post. \<forall>v. stateSensorEntry decode tlpdrInfo r \<noteq> Some (entry, v)))
              \<longrightarrow> info' = info)"
proof -
  let ?writes = "\<lambda>r. \<exists>v. stateSensorEntry decode tlpdrInfo r = Some (entry, v)"
  from assms have "\<exists>r\<in>set stateSensorPDRs. ?writes r" by blast
  then obtain ys r zs where split: "stateSensorPDRs = ys @ r # zs"
    and r: "?writes r" and zs: "\<forall>z\<in>set zs. \<not> ?writes z"
    by (rule split_list_last_propE)
  from r obtain w where w: "stateSensorEntry decode tlpdrInfo r = Some (entry, w)" ..
  from zs have zs': "\<forall>z\<in>set zs. \<forall>v. stateSensorEntry decode tlpdrInfo z \<noteq> Some (entry, v)"
    by blast
  have found: "lookupSensorInfo (parseStateSensorPDRs decode h stateSensorPDRs tlpdrInfo) entry
                 = Inr w"
    unfolding split using w zs' by (rule parseStateSensorPDRs_last_write)
  have written: "\<exists>r\<in>set stateSensorPDRs. stateSensorEntry decode tlpdrInfo r = Some (entry, w)"
    using split w by auto
  have last: "w = info"
    if "stateSensorPDRs = pre @ pdr # post"
      and "\<forall>r\<in>set post. \<forall>v. stateSensorEntry decode tlpdrInfo r \<noteq> Some (entry, v)"
    for pre post
  proof -
    from assms(2) that(2)
    have "lookupSensorInfo (parseStateSensorPDRs decode h (pre @ pdr # post) tlpdrInfo) entry
            = Inr info"
      by (rule parseStateSensorPDRs_last_write)
    with found that(1) show ?thesis by simp
  qed
  from found written last show ?thesis by blast
qed

text \<open>
  An instance: a decoder that reads a PDR of three bytes as terminus handle, sensor id
  and sensor info; terminus handle 1 is terminus 9. The batch writes the key (9, 7)
  twice, then holds a PDR of another sensor, a PDR whose terminus handle does not
  resolve and a PDR that does not decode. The lookup returns the second write.
\<close>

theorem lookupSensorInfo_parseStateSensorPDRs_roundtrip_witness:
  "[1, 7, 200] \<in> set [[1, 7, 100], [1, 7, 200], [1, 8, 50], [2, 7, 60], [5 :: 8 word]]
   \<and> stateSensorEntry (\<lambda>bs. case bs of
             [hnd, sid, nfo] \<Rightarrow>
               Some \<lparr>pdr_terminusHandle = hnd, pdr_sensorID = sid, pdr_sensorInfo = nfo\<rparr>
           | _ \<Rightarrow> None) [(1 :: 8 word, 9 :: 8 word)] [1, 7, 200]
       = Some (\<lparr>terminusID = 9, sensorID = 7\<rparr>, 200)
   \<and> lookupSensorInfo
         (parseStateSensorPDRs (\<lambda>bs. case bs of
             [hnd, sid, nfo] \<Rightarrow>
               Some \<lparr>pdr_terminusHandle = hnd, pdr_sensorID = sid, pdr_sensorInfo = nfo\<rparr>
           | _ \<Rightarrow> None)
            \<lparr>mctp_eid = 9, pdrRecordHandles = [], sensorMap = [], verbose = False,
              responseReceived = False, mergedHostParents = False, timeOut = False,
              insId = 0, objPathEntityAssociation = False\<rparr>
            [[1, 7, 100], [1, 7, 200], [1, 8, 50], [2, 7, 60], [5]]
            [(1 :: 8 word, 9 :: 8 word)])
         \<lparr>terminusID = 9, sensorID = 7\<rparr> = Inr 200"
proof -
  let ?dec = "(\<lambda>bs. case bs of
             [hnd, sid, nfo] \<Rightarrow>
               Some \<lparr>pdr_terminusHandle = hnd, pdr_sensorID = sid, pdr_sensorInfo = nfo\<rparr>
           | _ \<Rightarrow> None)"
  let ?tl = "[(1 :: 8 word, 9 :: 8 word)]"
  let ?e = "\<lparr>terminusID = 9 :: 8 word, sensorID = 7 :: 8 word\<rparr>"
  let ?h = "\<lparr>mctp_eid = 9, pdrRecordHandles = [], sensorMap = [], verbose = False,
              responseReceived = False, mergedHostParents = False, timeOut = False,
              insId = 0, objPathEntityAssociation = False\<rparr>"
  let ?batch = "[[1, 7, 100], [1, 7, 200], [1, 8, 50], [2, 7, 60], [5 :: 8 word]]"
  have mem: "[1, 7, 200] \<in> set ?batch" by simp
  have ins: "stateSensorEntry ?dec ?tl [1, 7, 200] = Some (?e, 200)"
    by (simp add: stateSensorEntry_def key_equiv_def)
  have later: "\<forall>r\<in>set [[1, 8, 50], [2, 7, 60], [5]]. \<forall>v.
      stateSensorEntry ?dec ?tl r \<noteq> Some (?e, v)"
    by (simp add: stateSensorEntry_def key_equiv_def)
  have split: "?batch = [[1, 7, 100]] @ [1, 7, 200] # [[1, 8, 50], [2, 7, 60], [5]]"
    by simp
  from lookupSensorInfo_parseStateSensorPDRs_roundtrip [OF mem ins, of ?h]
  obtain info' where
    found: "lookupSensorInfo (parseStateSensorPDRs ?dec ?h ?batch ?tl) ?e = Inr info'"
    and last: "(\<exists>pre post. ?batch = pre @ [1, 7, 200] # post
         \<and> (\<forall>r\<in>set post. \<forall>v. stateSensorEntry ?dec ?tl r \<noteq> Some (?e, v)))
       \<longrightarrow> info' = 200"
    by blast
  from split later have "\<exists>pre post. ?batch = pre @ [1, 7, 200] # post
         \<and> (\<forall>r\<in>set post. \<forall>v. stateSensorEntry ?dec ?tl r \<noteq> Some (?e, v))"
    by blast
  with last have "info' = 200" by blast
  with found mem ins show ?thesis by blast
qed

end
